theory Spec2Isabelle
  imports Main "HOL-Library.Word"
begin

unbundle bit_operations_syntax

section \<open>Machine integers of the firmware\<close>

type_synonym u8 = "8 word"
type_synonym u16 = "16 word"
type_synonym u32 = "32 word"

section \<open>CAN driver (can.c): messages and ring buffers\<close>

text \<open>
  \<^verbatim>\<open>CAN_Message_t\<close> of can.h. The payload array \<^verbatim>\<open>data[8]\<close> is a list of bytes;
  the field \<^verbatim>\<open>id\<close> is named \<open>can_id\<close>, since \<open>id\<close> is the identity function of HOL.
\<close>

record CAN_Message_t =
  can_id :: u32
  data :: "u8 list"
  len :: u8
  is_extended :: bool

definition CAN_RX_BUFFER_SIZE :: u8 where
  "CAN_RX_BUFFER_SIZE = 8"

definition CAN_TX_BUFFER_SIZE :: u8 where
  "CAN_TX_BUFFER_SIZE = 8"

text \<open>
  \<^verbatim>\<open>CAN_RingBuffer_t\<close>: the storage array has \<^verbatim>\<open>CAN_TX_BUFFER_SIZE\<close> slots, and the
  three indices are \<^verbatim>\<open>uint8_t\<close>. A store or load at an index outside the array is
  undefined behaviour in C; the list update and lookup below are only meaningful for
  indices below 8, which the invariant \<open>ring_inv\<close> guarantees.
\<close>

record CAN_RingBuffer_t =
  buffer :: "CAN_Message_t list"
  head :: u8
  tail :: u8
  count :: u8

definition zero_msg :: CAN_Message_t where
  "zero_msg = \<lparr>can_id = 0, data = replicate 8 0, len = 0, is_extended = False\<rparr>"

text \<open>The state after \<^verbatim>\<open>memset(&buf, 0, sizeof(buf))\<close> in \<^verbatim>\<open>CAN_Driver_Init\<close>.\<close>

definition ring_init :: CAN_RingBuffer_t where
  "ring_init = \<lparr>buffer = replicate 8 zero_msg, head = 0, tail = 0, count = 0\<rparr>"

definition RingBuffer_IsFull :: "CAN_RingBuffer_t \<Rightarrow> u8 \<Rightarrow> bool" where
  "RingBuffer_IsFull b buffer_size = (count b \<ge> buffer_size)"

definition RingBuffer_IsEmpty :: "CAN_RingBuffer_t \<Rightarrow> bool" where
  "RingBuffer_IsEmpty b = (count b = 0)"

definition RingBuffer_GetCount :: "CAN_RingBuffer_t \<Rightarrow> u8" where
  "RingBuffer_GetCount b = count b"

text \<open>
  \<^verbatim>\<open>(buffer->head + 1) % buffer_size\<close>: both operands are promoted to \<^verbatim>\<open>int\<close>, so the
  sum does not wrap at 256; the result is stored back into a \<^verbatim>\<open>uint8_t\<close>.
\<close>

definition next_index :: "u8 \<Rightarrow> u8 \<Rightarrow> u8" where
  "next_index i buffer_size = of_nat ((unat i + 1) mod unat buffer_size)"

definition RingBuffer_Put ::
  "CAN_RingBuffer_t \<Rightarrow> CAN_Message_t \<Rightarrow> u8 \<Rightarrow> bool \<times> CAN_RingBuffer_t" where
  "RingBuffer_Put b msg buffer_size =
     (if RingBuffer_IsFull b buffer_size then (False, b)
      else (True, b\<lparr>buffer := (buffer b)[unat (head b) := msg],
                     head := next_index (head b) buffer_size,
                     count := count b + 1\<rparr>))"

text \<open>
  \<^verbatim>\<open>RingBuffer_Get\<close> writes the message through the out-pointer only on success; the
  model returns it as an option.
\<close>

definition RingBuffer_Get ::
  "CAN_RingBuffer_t \<Rightarrow> u8 \<Rightarrow> CAN_Message_t option \<times> CAN_RingBuffer_t" where
  "RingBuffer_Get b buffer_size =
     (if RingBuffer_IsEmpty b then (None, b)
      else (Some (buffer b ! unat (tail b)),
            b\<lparr>tail := next_index (tail b) buffer_size,
              count := count b - 1\<rparr>))"

text \<open>A sequence of operations on one ring buffer, run from left to right.\<close>

datatype ring_op = Put CAN_Message_t | Get

fun ring_step :: "u8 \<Rightarrow> CAN_RingBuffer_t \<Rightarrow> ring_op \<Rightarrow> CAN_RingBuffer_t" where
  "ring_step n b (Put m) = snd (RingBuffer_Put b m n)"
| "ring_step n b Get = snd (RingBuffer_Get b n)"

fun ring_run :: "u8 \<Rightarrow> CAN_RingBuffer_t \<Rightarrow> ring_op list \<Rightarrow> CAN_RingBuffer_t" where
  "ring_run n b [] = b"
| "ring_run n b (x # xs) = ring_run n (ring_step n b x) xs"

text \<open>The invariant of the data model: \<open>0 \<le> count \<le> 8\<close>, head and tail in \<open>[0, 8)\<close>.\<close>

definition ring_inv :: "CAN_RingBuffer_t \<Rightarrow> bool" where
  "ring_inv b = (unat (count b) \<le> 8 \<and> unat (head b) < 8 \<and> unat (tail b) < 8
                 \<and> length (buffer b) = 8)"

text \<open>
  \<^verbatim>\<open>CAN_Driver_Send\<close>. The data pointer is \<open>None\<close> for \<^verbatim>\<open>NULL\<close>. \<^verbatim>\<open>memcpy\<close> reads
  \<^verbatim>\<open>len\<close> bytes from the caller's array (which must hold that many), and the unused
  bytes of the payload are cleared.
\<close>

definition CAN_Driver_Send ::
  "CAN_RingBuffer_t \<Rightarrow> u32 \<Rightarrow> u8 list option \<Rightarrow> u8 \<Rightarrow> bool \<times> CAN_RingBuffer_t" where
  "CAN_Driver_Send tx ident dat n =
     (case dat of
        None \<Rightarrow> (False, tx)
      | Some d \<Rightarrow>
          if n > 8 then (False, tx)
          else RingBuffer_Put tx
                 \<lparr>can_id = ident, data = take (unat n) d @ replicate (8 - unat n) 0,
                  len = n, is_extended = True\<rparr>
                 CAN_TX_BUFFER_SIZE)"

text \<open>
  \<^verbatim>\<open>CAN_Driver_Transmit\<close>: the drain loop. The bus sender
  \<^verbatim>\<open>HAL_FDCAN_AddMessageToTxFifoQ\<close> belongs to the vendor HAL; it is the parameter
  \<open>send\<close>, which takes the hardware state and the frame and answers whether the frame
  was accepted (\<^verbatim>\<open>HAL_OK\<close>). Each round removes one message, so the loop ends after at
  most \<open>count\<close> rounds.
\<close>

function CAN_Driver_Transmit ::
  "('hw \<Rightarrow> CAN_Message_t \<Rightarrow> bool \<times> 'hw) \<Rightarrow> CAN_RingBuffer_t \<Rightarrow> 'hw \<Rightarrow> CAN_RingBuffer_t \<times> 'hw"
  where
  "CAN_Driver_Transmit send tx hw =
     (case RingBuffer_Get tx CAN_TX_BUFFER_SIZE of
        (None, _) \<Rightarrow> (tx, hw)
      | (Some msg, tx1) \<Rightarrow>
          (case send hw msg of
             (True, hw1) \<Rightarrow> CAN_Driver_Transmit send tx1 hw1
           | (False, hw1) \<Rightarrow> (snd (RingBuffer_Put tx1 msg CAN_TX_BUFFER_SIZE), hw1)))"
  by pat_completeness auto
termination
  apply (relation "measure (\<lambda>(send, tx, hw). unat (count tx))")
   apply simp
  apply (auto simp: RingBuffer_Get_def RingBuffer_IsEmpty_def unat_minus_one unat_gt_0 split: if_splits)
  done

declare CAN_Driver_Transmit.simps [simp del]

text \<open>
  A bus sender for running the drain on concrete inputs: the hardware TX FIFO has
  \<open>tx_fifo_free\<close> free slots; a frame is accepted, and appears on the bus, while a slot
  is free, and is refused (the FIFO is saturated) otherwise.
\<close>

record FDCAN_hw =
  tx_fifo_free :: nat
  bus :: "CAN_Message_t list"

definition HAL_FDCAN_AddMessageToTxFifoQ :: "FDCAN_hw \<Rightarrow> CAN_Message_t \<Rightarrow> bool \<times> FDCAN_hw" where
  "HAL_FDCAN_AddMessageToTxFifoQ hw msg =
     (if tx_fifo_free hw = 0 then (False, hw)
      else (True, hw\<lparr>tx_fifo_free := tx_fifo_free hw - 1, bus := bus hw @ [msg]\<rparr>))"

section \<open>Brake actuator (left_brake.c)\<close>

datatype BrakeState_t =
  BRAKE_STATE_RELEASED
| BRAKE_STATE_RELEASING
| BRAKE_STATE_PUSHED
| BRAKE_STATE_PUSHING
| BRAKE_STATE_STOPPED

definition POSITION_RELEASED :: u16 where "POSITION_RELEASED = 200"
definition POSITION_PUSHED :: u16 where "POSITION_PUSHED = 3800"
definition POSITION_TOLERANCE :: u16 where "POSITION_TOLERANCE = 100"
definition MOTOR_DUTY_PUSH :: u8 where "MOTOR_DUTY_PUSH = 80"
definition MOTOR_DUTY_RELEASE :: u8 where "MOTOR_DUTY_RELEASE = 80"
definition ESTIMATED_PUSH_TIME_MS :: u32 where "ESTIMATED_PUSH_TIME_MS = 2000"
definition ESTIMATED_RELEASE_TIME_MS :: u32 where "ESTIMATED_RELEASE_TIME_MS = 2000"
definition POSITION_TIMEOUT_MS :: u32 where "POSITION_TIMEOUT_MS = 5000"
definition MIN_VALID_POSITION :: u16 where "MIN_VALID_POSITION = 50"
definition MAX_VALID_POSITION :: u16 where "MAX_VALID_POSITION = 4000"
definition MAX_POSITION_ERRORS :: u8 where "MAX_POSITION_ERRORS = 10"

text \<open>
  Modelled from the spec: the command codes \<^verbatim>\<open>AUTOMATE_LEFT_BRAKE_CMD_BRAKE_STATE_*_CHOICE\<close>
  are declared in the generated header automate.h, which is not among the sources.
  The command layout gives brake_state 0 = release and 1 = push.
\<close>

definition AUTOMATE_LEFT_BRAKE_CMD_BRAKE_STATE_RELEASE_CHOICE :: u8 where
  "AUTOMATE_LEFT_BRAKE_CMD_BRAKE_STATE_RELEASE_CHOICE = 0"

definition AUTOMATE_LEFT_BRAKE_CMD_BRAKE_STATE_PUSH_CHOICE :: u8 where
  "AUTOMATE_LEFT_BRAKE_CMD_BRAKE_STATE_PUSH_CHOICE = 1"

text \<open>
  The state of the brake module: the fields of \<^verbatim>\<open>app_state\<close> that left_brake.c uses
  (\<open>state\<close>, \<open>app_current_position\<close>, \<open>target_position\<close>), its static variables, and
  the two motor outputs (the INH pin and the PWM duty in percent, from which the
  compare register is \<^verbatim>\<open>arr * duty / 100\<close>).
\<close>

record brake =
  state :: BrakeState_t
  app_current_position :: u16
  target_position :: u16
  current_position :: u16
  operation_start_tick :: u32
  estimated_operation_time_ms :: u32
  position_error_count :: u8
  motor_inh :: bool
  motor_duty :: u8

definition Motor_SetDirection :: "bool \<Rightarrow> brake \<Rightarrow> brake" where
  "Motor_SetDirection push b = b\<lparr>motor_inh := push\<rparr>"

definition Motor_SetPWM :: "u8 \<Rightarrow> brake \<Rightarrow> brake" where
  "Motor_SetPWM duty_percent b =
     b\<lparr>motor_duty := (if duty_percent > 100 then 100 else duty_percent)\<rparr>"

definition Motor_Stop :: "brake \<Rightarrow> brake" where
  "Motor_Stop b = (Motor_SetPWM 0 b)\<lparr>motor_inh := False\<rparr>"

text \<open>
  \<^verbatim>\<open>ADC_ReadPosition\<close>: the conversion result is \<open>Some v\<close>; on a conversion timeout
  (\<open>None\<close>) the function returns the last known position.
\<close>

definition ADC_ReadPosition :: "u16 option \<Rightarrow> brake \<Rightarrow> u16" where
  "ADC_ReadPosition adc b = (case adc of Some v \<Rightarrow> v | None \<Rightarrow> current_position b)"

definition IsPositionValid :: "u16 \<Rightarrow> bool" where
  "IsPositionValid position = (position \<ge> MIN_VALID_POSITION \<and> position \<le> MAX_VALID_POSITION)"

text \<open>
  \<^verbatim>\<open>UpdateOperationEstimate\<close>; \<open>now\<close> is \<^verbatim>\<open>HAL_GetTick()\<close>. The \<^verbatim>\<open>int32_t\<close> distances are
  32-bit words read as two's complement (\<open><s\<close> is the signed comparison). In
  \<^verbatim>\<open>elapsed / distance_traveled\<close> and \<^verbatim>\<open>time_per_unit * distance_remaining\<close> the signed
  operand is converted to \<^verbatim>\<open>uint32_t\<close>, which keeps the bit pattern, and the
  arithmetic is unsigned, modulo \<open>2 ^ 32\<close>.
\<close>

definition UpdateOperationEstimate :: "u32 \<Rightarrow> brake \<Rightarrow> brake" where
  "UpdateOperationEstimate now b =
     (let elapsed = now - operation_start_tick b in
      if state b \<noteq> BRAKE_STATE_PUSHING \<and> state b \<noteq> BRAKE_STATE_RELEASING
      then b\<lparr>estimated_operation_time_ms := 0\<rparr>
      else
        let start_pos = (if state b = BRAKE_STATE_PUSHING then POSITION_RELEASED
                         else POSITION_PUSHED);
            target_pos = (if state b = BRAKE_STATE_PUSHING then POSITION_PUSHED
                          else POSITION_RELEASED);
            distance_total = (ucast target_pos :: u32) - ucast start_pos;
            distance_remaining = (ucast target_pos :: u32) - ucast (current_position b)
        in if distance_total = 0 then b\<lparr>estimated_operation_time_ms := 0\<rparr>
           else if elapsed > 0 then
             (let distance_traveled = distance_total - distance_remaining in
              if 0 <s distance_traveled then
                (let time_per_unit = elapsed div distance_traveled in
                 b\<lparr>estimated_operation_time_ms := time_per_unit * distance_remaining\<rparr>)
              else
                b\<lparr>estimated_operation_time_ms :=
                    (if state b = BRAKE_STATE_PUSHING then ESTIMATED_PUSH_TIME_MS
                     else ESTIMATED_RELEASE_TIME_MS)\<rparr>)
           else b)"

text \<open>The classification of a position shared by \<^verbatim>\<open>Brake_Init\<close> and \<^verbatim>\<open>Brake_ClearError\<close>.\<close>

definition classify_position :: "brake \<Rightarrow> brake" where
  "classify_position b =
     (if current_position b \<le> POSITION_RELEASED + POSITION_TOLERANCE
      then b\<lparr>state := BRAKE_STATE_RELEASED, target_position := POSITION_RELEASED\<rparr>
      else if current_position b \<ge> POSITION_PUSHED - POSITION_TOLERANCE
      then b\<lparr>state := BRAKE_STATE_PUSHED, target_position := POSITION_PUSHED\<rparr>
      else b\<lparr>state := BRAKE_STATE_RELEASED, target_position := POSITION_RELEASED\<rparr>)"

definition Brake_Init :: "u16 option \<Rightarrow> brake \<Rightarrow> brake" where
  "Brake_Init adc b =
     (let b1 = Motor_Stop (b\<lparr>current_position := 0, operation_start_tick := 0,
                             estimated_operation_time_ms := ESTIMATED_PUSH_TIME_MS,
                             position_error_count := 0\<rparr>);
          b2 = b1\<lparr>current_position := ADC_ReadPosition adc b1\<rparr>
      in classify_position b2)"

definition Brake_UpdatePosition :: "u16 option \<Rightarrow> brake \<Rightarrow> brake" where
  "Brake_UpdatePosition adc b =
     (let new_position = ADC_ReadPosition adc b in
      if IsPositionValid new_position
      then b\<lparr>current_position := new_position, app_current_position := new_position,
             position_error_count := 0\<rparr>
      else
        let b1 = b\<lparr>position_error_count := position_error_count b + 1\<rparr>
        in if position_error_count b1 \<ge> MAX_POSITION_ERRORS
           then Motor_Stop (b1\<lparr>state := BRAKE_STATE_STOPPED\<rparr>)
           else b1)"

definition Brake_ProcessCommand :: "u32 \<Rightarrow> u8 \<Rightarrow> brake \<Rightarrow> brake" where
  "Brake_ProcessCommand now brake_state b =
     (if state b = BRAKE_STATE_STOPPED \<and> position_error_count b \<ge> MAX_POSITION_ERRORS
      then b
      else if brake_state = AUTOMATE_LEFT_BRAKE_CMD_BRAKE_STATE_PUSH_CHOICE then
        (if state b \<noteq> BRAKE_STATE_PUSHING \<and> state b \<noteq> BRAKE_STATE_PUSHED
         then b\<lparr>state := BRAKE_STATE_PUSHING, target_position := POSITION_PUSHED,
                operation_start_tick := now,
                estimated_operation_time_ms := ESTIMATED_PUSH_TIME_MS\<rparr>
         else b)
      else if brake_state = AUTOMATE_LEFT_BRAKE_CMD_BRAKE_STATE_RELEASE_CHOICE then
        (if state b \<noteq> BRAKE_STATE_RELEASING \<and> state b \<noteq> BRAKE_STATE_RELEASED
         then b\<lparr>state := BRAKE_STATE_RELEASING, target_position := POSITION_RELEASED,
                operation_start_tick := now,
                estimated_operation_time_ms := ESTIMATED_RELEASE_TIME_MS\<rparr>
         else b)
      else b)"

definition Brake_Update :: "u32 \<Rightarrow> brake \<Rightarrow> brake" where
  "Brake_Update now b =
     (let pos = current_position b in
      if (state b = BRAKE_STATE_PUSHING \<or> state b = BRAKE_STATE_RELEASING)
         \<and> now - operation_start_tick b > POSITION_TIMEOUT_MS
      then Motor_Stop (b\<lparr>state := BRAKE_STATE_STOPPED\<rparr>)
      else
        case state b of
          BRAKE_STATE_PUSHING \<Rightarrow>
            (let b1 = UpdateOperationEstimate now b in
             if pos \<ge> POSITION_PUSHED - POSITION_TOLERANCE
             then Motor_Stop (b1\<lparr>state := BRAKE_STATE_PUSHED\<rparr>)
             else Motor_SetPWM MOTOR_DUTY_PUSH (Motor_SetDirection True b1))
        | BRAKE_STATE_RELEASING \<Rightarrow>
            (let b1 = UpdateOperationEstimate now b in
             if pos \<le> POSITION_RELEASED + POSITION_TOLERANCE
             then Motor_Stop (b1\<lparr>state := BRAKE_STATE_RELEASED\<rparr>)
             else Motor_SetPWM MOTOR_DUTY_RELEASE (Motor_SetDirection False b1))
        | BRAKE_STATE_PUSHED \<Rightarrow> (Motor_Stop b)\<lparr>estimated_operation_time_ms := 0\<rparr>
        | BRAKE_STATE_RELEASED \<Rightarrow> (Motor_Stop b)\<lparr>estimated_operation_time_ms := 0\<rparr>
        | BRAKE_STATE_STOPPED \<Rightarrow> (Motor_Stop b)\<lparr>estimated_operation_time_ms := 0\<rparr>)"

text \<open>\<^verbatim>\<open>Brake_GetTimeToEnd\<close>: the 32-bit difference is cast to \<^verbatim>\<open>uint16_t\<close>.\<close>

definition Brake_GetTimeToEnd :: "u32 \<Rightarrow> brake \<Rightarrow> u16" where
  "Brake_GetTimeToEnd now b =
     (if state b = BRAKE_STATE_PUSHING \<or> state b = BRAKE_STATE_RELEASING then
        (let elapsed = now - operation_start_tick b in
         if elapsed < estimated_operation_time_ms b
         then ucast (estimated_operation_time_ms b - elapsed)
         else 0)
      else 0)"

definition Brake_GetPosition :: "brake \<Rightarrow> u16" where
  "Brake_GetPosition b = current_position b"

definition Brake_EmergencyStop :: "brake \<Rightarrow> brake" where
  "Brake_EmergencyStop b = (Motor_Stop b)\<lparr>state := BRAKE_STATE_STOPPED\<rparr>"

definition Brake_ClearError :: "u16 option \<Rightarrow> brake \<Rightarrow> bool \<times> brake" where
  "Brake_ClearError adc b =
     (let b1 = Brake_UpdatePosition adc (b\<lparr>position_error_count := 0\<rparr>) in
      if IsPositionValid (current_position b1) then (True, classify_position b1)
      else (False, b1))"

definition Brake_HasError :: "brake \<Rightarrow> bool" where
  "Brake_HasError b = (position_error_count b \<ge> MAX_POSITION_ERRORS)"

text \<open>The variables of the brake module before \<^verbatim>\<open>Brake_Init\<close> (zero-initialised statics).\<close>

definition brake_reset :: brake where
  "brake_reset = \<lparr>state = BRAKE_STATE_RELEASED, app_current_position = 0,
     target_position = 0, current_position = 0, operation_start_tick = 0,
     estimated_operation_time_ms = 2000, position_error_count = 0,
     motor_inh = False, motor_duty = 0\<rparr>"

text \<open>Repeating \<^verbatim>\<open>Brake_UpdatePosition\<close> with the same ADC reading \<open>n\<close> times.\<close>

fun update_position_times :: "nat \<Rightarrow> u16 option \<Rightarrow> brake \<Rightarrow> brake" where
  "update_position_times 0 adc b = b"
| "update_position_times (Suc n) adc b = update_position_times n adc (Brake_UpdatePosition adc b)"

section \<open>Controller (controller.c)\<close>

definition NODE_ID_MCU :: u8 where "NODE_ID_MCU = 0xF0"
definition NODE_ID_PC :: u8 where "NODE_ID_PC = 0x10"
definition WATCHDOG_TIMEOUT_MS :: u32 where "WATCHDOG_TIMEOUT_MS = 200"

text \<open>
  The health codes of automate.h, as controller.h lists them:
  OFF 0, ON 1, INIT 2, WARNING 3, FAILURE 4, CRITICAL_FAILURE 5.
\<close>

definition AUTOMATE_HEART_BEAT_MSG_HEALTH_ON_CHOICE :: u8 where
  "AUTOMATE_HEART_BEAT_MSG_HEALTH_ON_CHOICE = 1"
definition AUTOMATE_HEART_BEAT_MSG_HEALTH_INIT_CHOICE :: u8 where
  "AUTOMATE_HEART_BEAT_MSG_HEALTH_INIT_CHOICE = 2"
definition AUTOMATE_HEART_BEAT_MSG_HEALTH_WARNING_CHOICE :: u8 where
  "AUTOMATE_HEART_BEAT_MSG_HEALTH_WARNING_CHOICE = 3"
definition AUTOMATE_HEART_BEAT_MSG_HEALTH_FAILURE_CHOICE :: u8 where
  "AUTOMATE_HEART_BEAT_MSG_HEALTH_FAILURE_CHOICE = 4"

text \<open>
  Modelled from the spec: \<^verbatim>\<open>automate_heart_beat_msg_health_is_in_range\<close> is a function of
  the generated codec (automate.h / automate.c), which is not among the sources. The
  specification words it as: the override is accepted only if the value is one of the
  four defined variants INIT, ON, WARNING, FAILURE.
\<close>

definition automate_heart_beat_msg_health_is_in_range :: "u8 \<Rightarrow> bool" where
  "automate_heart_beat_msg_health_is_in_range v =
     (v = AUTOMATE_HEART_BEAT_MSG_HEALTH_INIT_CHOICE
      \<or> v = AUTOMATE_HEART_BEAT_MSG_HEALTH_ON_CHOICE
      \<or> v = AUTOMATE_HEART_BEAT_MSG_HEALTH_WARNING_CHOICE
      \<or> v = AUTOMATE_HEART_BEAT_MSG_HEALTH_FAILURE_CHOICE)"

text \<open>\<^verbatim>\<open>struct automate_heart_beat_msg_t\<close>, the decoded heartbeat.\<close>

record automate_heart_beat_msg_t =
  hb_node_id :: u8
  hb_msg_count :: u32
  hb_health :: u8
  hb_stamp :: u16

text \<open>The static variables of controller.c.\<close>

record controller =
  node_id :: u8
  heartbeat_msg_count :: u32
  node_health :: u8
  last_heartbeat_tick :: u32
  last_telemetry_tick :: u32
  last_pc_heartbeat_tick :: u32
  last_led_toggle_tick :: u32
  telemetry_msg_id :: u8
  led_state :: bool
  pc_heartbeat_msg_count :: u32
  pc_heartbeat_received :: bool

definition Controller_Init :: "u32 \<Rightarrow> controller \<Rightarrow> controller" where
  "Controller_Init now c =
     c\<lparr>node_id := NODE_ID_MCU, heartbeat_msg_count := 0, telemetry_msg_id := 0,
       node_health := AUTOMATE_HEART_BEAT_MSG_HEALTH_INIT_CHOICE,
       last_heartbeat_tick := now, last_telemetry_tick := now,
       last_pc_heartbeat_tick := 0, last_led_toggle_tick := now,
       pc_heartbeat_msg_count := 0, pc_heartbeat_received := False,
       led_state := False\<rparr>"



text \<open>
  The heartbeat case of \<^verbatim>\<open>ProcessReceivedMessage\<close>, after the frame was unpacked
  successfully: only a heartbeat whose node id is that of the PC is recorded.
\<close>

definition process_heartbeat :: "u32 \<Rightarrow> automate_heart_beat_msg_t \<Rightarrow> controller \<Rightarrow> controller" where
  "process_heartbeat now heartbeat c =
     (if hb_node_id heartbeat = NODE_ID_PC
      then c\<lparr>last_pc_heartbeat_tick := now,
             pc_heartbeat_msg_count := hb_msg_count heartbeat,
             pc_heartbeat_received := True\<rparr>
      else c)"

text \<open>\<^verbatim>\<open>UpdateSystemHealth\<close>; the brake state is read through \<^verbatim>\<open>Brake_HasError\<close>.\<close>

definition UpdateSystemHealth :: "u32 \<Rightarrow> brake \<Rightarrow> controller \<Rightarrow> controller" where
  "UpdateSystemHealth current_tick br c =
     (let c1 =
            (if pc_heartbeat_received c then
               (let time_since_last_pc_heartbeat = current_tick - last_pc_heartbeat_tick c in
                if time_since_last_pc_heartbeat > WATCHDOG_TIMEOUT_MS then
                  (if node_health c = AUTOMATE_HEART_BEAT_MSG_HEALTH_ON_CHOICE
                   then c\<lparr>node_health := AUTOMATE_HEART_BEAT_MSG_HEALTH_WARNING_CHOICE\<rparr>
                   else c)
                else
                  (if node_health c = AUTOMATE_HEART_BEAT_MSG_HEALTH_WARNING_CHOICE
                   then c\<lparr>node_health := AUTOMATE_HEART_BEAT_MSG_HEALTH_ON_CHOICE\<rparr>
                   else c))
             else c);
          c2 =
            (if node_health c1 = AUTOMATE_HEART_BEAT_MSG_HEALTH_INIT_CHOICE \<and> current_tick > 1000
             then c1\<lparr>node_health := AUTOMATE_HEART_BEAT_MSG_HEALTH_ON_CHOICE\<rparr>
             else c1)
      in if Brake_HasError br then
           (if node_health c2 < AUTOMATE_HEART_BEAT_MSG_HEALTH_FAILURE_CHOICE
            then c2\<lparr>node_health := AUTOMATE_HEART_BEAT_MSG_HEALTH_FAILURE_CHOICE\<rparr>
            else c2)
         else c2)"


definition Controller_GetNodeID :: "controller \<Rightarrow> u8" where
  "Controller_GetNodeID c = node_id c"

definition Controller_SetHealth :: "u8 \<Rightarrow> controller \<Rightarrow> controller" where
  "Controller_SetHealth health c =
     (if automate_heart_beat_msg_health_is_in_range health
      then c\<lparr>node_health := health\<rparr> else c)"

definition Controller_GetHealth :: "controller \<Rightarrow> u8" where
  "Controller_GetHealth c = node_health c"

section \<open>Concrete runs used by the closed theorems\<close>

text \<open>After \<^verbatim>\<open>Brake_Init\<close> with an initial ADC sample of 200: RELEASED.\<close>

definition brake_at_200 :: brake where
  "brake_at_200 = Brake_Init (Some 200) brake_reset"

text \<open>STOPPED through an emergency stop.\<close>

definition brake_emergency_stopped :: brake where
  "brake_emergency_stopped = Brake_EmergencyStop brake_at_200"

text \<open>STOPPED through the operation timeout: PUSH at tick 0, update at tick 5001.\<close>

definition brake_timed_out :: brake where
  "brake_timed_out =
     Brake_Update 5001
       (Brake_ProcessCommand 0 AUTOMATE_LEFT_BRAKE_CMD_BRAKE_STATE_PUSH_CHOICE brake_at_200)"

text \<open>STOPPED through ten invalid samples (4095) in a row; the stored position is still 200.\<close>

definition brake_sensor_fault :: brake where
  "brake_sensor_fault = update_position_times 10 (Some 4095) brake_at_200"

text \<open>PUSH at tick 0, then a sample of 201, then \<^verbatim>\<open>Brake_Update\<close> at tick 100.\<close>

definition brake_pushing_201 :: brake where
  "brake_pushing_201 =
     Brake_Update 100
       (Brake_UpdatePosition (Some 201)
          (Brake_ProcessCommand 0 AUTOMATE_LEFT_BRAKE_CMD_BRAKE_STATE_PUSH_CHOICE brake_at_200))"

text \<open>PUSH at tick 0, then a sample of 1200.\<close>

definition brake_pushing_1200 :: brake where
  "brake_pushing_1200 =
     Brake_UpdatePosition (Some 1200)
       (Brake_ProcessCommand 0 AUTOMATE_LEFT_BRAKE_CMD_BRAKE_STATE_PUSH_CHOICE brake_at_200)"

text \<open>RELEASE at tick 0 from PUSHED at 3800, then a sample of 2000.\<close>

definition brake_releasing_2000 :: brake where
  "brake_releasing_2000 =
     Brake_UpdatePosition (Some 2000)
       (Brake_ProcessCommand 0 AUTOMATE_LEFT_BRAKE_CMD_BRAKE_STATE_RELEASE_CHOICE
          (Brake_Init (Some 3800) brake_reset))"

text \<open>The TX queue after two sends: frame 1 first, frame 2 second.\<close>

definition tx_two :: CAN_RingBuffer_t where
  "tx_two = snd (CAN_Driver_Send (snd (CAN_Driver_Send ring_init 1 (Some [1]) 1)) 2 (Some [2]) 1)"

text \<open>A drain of that queue while the hardware FIFO is saturated.\<close>

definition tx_after_failed_drain :: CAN_RingBuffer_t where
  "tx_after_failed_drain =
     fst (CAN_Driver_Transmit HAL_FDCAN_AddMessageToTxFifoQ tx_two \<lparr>tx_fifo_free = 0, bus = []\<rparr>)"

text \<open>A full ring buffer: eight Puts into the cleared buffer.\<close>

definition ring_full :: CAN_RingBuffer_t where
  "ring_full = ring_run 8 ring_init (replicate 8 (Put zero_msg))"

text \<open>The static initial values of controller.c.\<close>

definition controller_reset :: controller where
  "controller_reset = \<lparr>node_id = NODE_ID_MCU, heartbeat_msg_count = 0,
     node_health = AUTOMATE_HEART_BEAT_MSG_HEALTH_INIT_CHOICE,
     last_heartbeat_tick = 0, last_telemetry_tick = 0, last_pc_heartbeat_tick = 0,
     last_led_toggle_tick = 0, telemetry_msg_id = 0, led_state = False,
     pc_heartbeat_msg_count = 0, pc_heartbeat_received = False\<rparr>"

definition pc_heartbeat :: automate_heart_beat_msg_t where
  "pc_heartbeat = \<lparr>hb_node_id = NODE_ID_PC, hb_msg_count = 7, hb_health = 1, hb_stamp = 0\<rparr>"

text \<open>A PC heartbeat seen at tick 0, and health set to ON.\<close>

definition controller_on_seen :: controller where
  "controller_on_seen =
     Controller_SetHealth AUTOMATE_HEART_BEAT_MSG_HEALTH_ON_CHOICE
       (process_heartbeat 0 pc_heartbeat controller_reset)"


text \<open>
  The two signed distances of \<^verbatim>\<open>UpdateOperationEstimate\<close> read as integers:
  \<^verbatim>\<open>distance_remaining\<close> is target minus current position, and \<^verbatim>\<open>distance_traveled\<close>
  is \<^verbatim>\<open>distance_total - distance_remaining\<close>, that is current position minus start
  (start 200 and target 3800 when PUSHING, start 3800 and target 200 otherwise).
\<close>

definition distance_remaining :: "brake \<Rightarrow> int" where
  "distance_remaining b =
     (if state b = BRAKE_STATE_PUSHING then 3800 else 200) - uint (current_position b)"

definition distance_covered :: "brake \<Rightarrow> int" where
  "distance_covered b =
     uint (current_position b) - (if state b = BRAKE_STATE_PUSHING then 200 else 3800)"

section \<open>Ring buffer invariant\<close>

lemma next_index_lt8: "unat (next_index i 8) < 8"
proof -
  have "(unat i + 1) mod 8 < 8" by simp
  then show ?thesis
    by (simp add: next_index_def unat_of_nat)
qed

lemma next_index_8: "unat i < 8 \<Longrightarrow> unat (next_index i 8) = (unat i + 1) mod 8"
  by (simp add: next_index_def unat_of_nat)

lemma Put_inv: "ring_inv b \<Longrightarrow> ring_inv (snd (RingBuffer_Put b m 8))"
proof (cases "RingBuffer_IsFull b 8")
  case True
  assume "ring_inv b"
  with True show ?thesis by (simp add: RingBuffer_Put_def)
next
  case False
  assume inv: "ring_inv b"
  from False have "unat (count b) < 8"
    by (simp add: RingBuffer_IsFull_def word_le_nat_alt)
  then have "unat (count b + 1) \<le> 8"
    by (simp add: unat_word_ariths)
  with inv False show ?thesis
    by (simp add: RingBuffer_Put_def ring_inv_def next_index_lt8)
qed

lemma Get_inv: "ring_inv b \<Longrightarrow> ring_inv (snd (RingBuffer_Get b 8))"
proof (cases "RingBuffer_IsEmpty b")
  case True
  assume "ring_inv b"
  with True show ?thesis by (simp add: RingBuffer_Get_def)
next
  case False
  assume inv: "ring_inv b"
  from False have "count b \<noteq> 0"
    by (simp add: RingBuffer_IsEmpty_def)
  then have "unat (count b - 1) = unat (count b) - 1"
    by (simp add: unat_minus_one)
  moreover from inv have "unat (count b) - 1 \<le> 8"
    unfolding ring_inv_def by arith
  ultimately show ?thesis
    using inv False by (simp add: RingBuffer_Get_def ring_inv_def next_index_lt8)
qed

lemma ring_step_inv: "ring_inv b \<Longrightarrow> ring_inv (ring_step 8 b x)"
  by (cases x) (simp_all add: Put_inv Get_inv)

lemma ring_run_inv: "ring_inv b \<Longrightarrow> ring_inv (ring_run 8 b xs)"
  by (induction xs arbitrary: b) (simp_all add: ring_step_inv)

lemma ring_init_inv: "ring_inv ring_init"
  by (simp add: ring_inv_def ring_init_def)

text \<open>
  C4. Both ring buffers are driven with the buffer size 8
  (\<^verbatim>\<open>CAN_RX_BUFFER_SIZE\<close> and \<^verbatim>\<open>CAN_TX_BUFFER_SIZE\<close>). From a buffer that satisfies the
  invariant (count at most 8, head and tail below 8), every sequence of Put and Get
  operations ends in a buffer that satisfies it again; a successful Put moves the head
  to \<open>(head + 1) mod 8\<close> and a successful Get moves the tail to \<open>(tail + 1) mod 8\<close>;
  a Put on a full buffer returns false and leaves the buffer, with its contents,
  indices and count, exactly as it was, so the rejected message is the new one.
\<close>

theorem C4_ring_invariant:
  assumes "ring_inv b"
  shows "ring_inv (ring_run CAN_RX_BUFFER_SIZE b ops)
       \<and> ring_inv (ring_run CAN_TX_BUFFER_SIZE b ops)
       \<and> (unat (count b) < 8 \<longrightarrow>
            fst (RingBuffer_Put b m 8)
          \<and> unat (head (snd (RingBuffer_Put b m 8))) = (unat (head b) + 1) mod 8
          \<and> tail (snd (RingBuffer_Put b m 8)) = tail b
          \<and> unat (count (snd (RingBuffer_Put b m 8))) = unat (count b) + 1)
       \<and> (unat (count b) > 0 \<longrightarrow>
            fst (RingBuffer_Get b 8) = Some (buffer b ! unat (tail b))
          \<and> unat (tail (snd (RingBuffer_Get b 8))) = (unat (tail b) + 1) mod 8
          \<and> head (snd (RingBuffer_Get b 8)) = head b
          \<and> unat (count (snd (RingBuffer_Get b 8))) = unat (count b) - 1)
       \<and> (unat (count b) = 8 \<longrightarrow> RingBuffer_Put b m 8 = (False, b))"
proof -
  have run: "ring_inv (ring_run 8 b ops)"
    using assms by (rule ring_run_inv)
  have put: "fst (RingBuffer_Put b m 8)
          \<and> unat (head (snd (RingBuffer_Put b m 8))) = (unat (head b) + 1) mod 8
          \<and> tail (snd (RingBuffer_Put b m 8)) = tail b
          \<and> unat (count (snd (RingBuffer_Put b m 8))) = unat (count b) + 1"
    if lt: "unat (count b) < 8"
  proof -
    from lt have nf: "\<not> RingBuffer_IsFull b 8"
      by (simp add: RingBuffer_IsFull_def word_le_nat_alt)
    from lt have c: "unat (count b + 1) = unat (count b) + 1"
      by (simp add: unat_word_ariths)
    from assms have h: "unat (head b) < 8"
      by (simp add: ring_inv_def)
    from nf c next_index_8 [OF h] show ?thesis
      by (simp add: RingBuffer_Put_def)
  qed
  have get: "fst (RingBuffer_Get b 8) = Some (buffer b ! unat (tail b))
          \<and> unat (tail (snd (RingBuffer_Get b 8))) = (unat (tail b) + 1) mod 8
          \<and> head (snd (RingBuffer_Get b 8)) = head b
          \<and> unat (count (snd (RingBuffer_Get b 8))) = unat (count b) - 1"
    if gt: "unat (count b) > 0"
  proof -
    from gt have ne: "count b \<noteq> 0"
      by (auto simp: unat_eq_0)
    then have c: "unat (count b - 1) = unat (count b) - 1"
      by (simp add: unat_minus_one)
    from assms have t: "unat (tail b) < 8"
      by (simp add: ring_inv_def)
    from ne c next_index_8 [OF t] show ?thesis
      by (simp add: RingBuffer_Get_def RingBuffer_IsEmpty_def)
  qed
  have full: "RingBuffer_Put b m 8 = (False, b)" if "unat (count b) = 8"
    using that by (simp add: RingBuffer_Put_def RingBuffer_IsFull_def word_le_nat_alt)
  from run put get full show ?thesis
    by (simp add: CAN_RX_BUFFER_SIZE_def CAN_TX_BUFFER_SIZE_def)
qed

theorem C4_ring_invariant_witness:
  "ring_inv ring_init
   \<and> ring_inv (ring_run CAN_RX_BUFFER_SIZE ring_init [Put zero_msg, Get, Get])
   \<and> unat (count tx_two) < 8 \<and> fst (RingBuffer_Put tx_two zero_msg 8)
   \<and> 0 < unat (count tx_two)
   \<and> unat (tail (snd (RingBuffer_Get tx_two 8))) = (unat (tail tx_two) + 1) mod 8
   \<and> unat (count ring_full) = 8
   \<and> RingBuffer_Put ring_full zero_msg 8 = (False, ring_full)"
proof -
  have i0: "ring_inv ring_init" by code_simp
  have i2: "ring_inv tx_two" by code_simp
  have i8: "ring_inv ring_full" by code_simp
  have c2: "unat (count tx_two) < 8" "0 < unat (count tx_two)" by code_simp+
  have c8: "unat (count ring_full) = 8" by code_simp
  from C4_ring_invariant [OF i0, of "[Put zero_msg, Get, Get]"]
       C4_ring_invariant [OF i2, of _ zero_msg]
       C4_ring_invariant [OF i8, of _ zero_msg] i0 c2 c8
  show ?thesis by blast
qed

section \<open>Actuator state machine: the STOPPED state\<close>

lemma Motor_Stop_state [simp]: "state (Motor_Stop b) = state b"
  by (simp add: Motor_Stop_def Motor_SetPWM_def)

lemma Motor_Stop_current_position [simp]: "current_position (Motor_Stop b) = current_position b"
  by (simp add: Motor_Stop_def Motor_SetPWM_def)

lemma classify_position_state:
  "state (classify_position b) = BRAKE_STATE_RELEASED \<or> state (classify_position b) = BRAKE_STATE_PUSHED"
  by (simp add: classify_position_def)

lemma UpdatePosition_stopped:
  "state b = BRAKE_STATE_STOPPED \<Longrightarrow> state (Brake_UpdatePosition adc b) = BRAKE_STATE_STOPPED"
  by (simp add: Brake_UpdatePosition_def Let_def)

text \<open>
  What holds in STOPPED. While the invalid-sample counter is at its threshold,
  \<^verbatim>\<open>Brake_ProcessCommand\<close> leaves the whole brake state unchanged for every command
  value. \<^verbatim>\<open>Brake_Update\<close>, \<^verbatim>\<open>Brake_UpdatePosition\<close> and \<^verbatim>\<open>Brake_EmergencyStop\<close> keep
  STOPPED, and \<^verbatim>\<open>Brake_ClearError\<close> ends in STOPPED, RELEASED or PUSHED.
\<close>

lemma stopped_latched_by_sensor_fault:
  assumes "state b = BRAKE_STATE_STOPPED"
  shows "(position_error_count b \<ge> MAX_POSITION_ERRORS \<longrightarrow> Brake_ProcessCommand now cmd b = b)
       \<and> state (Brake_Update now b) = BRAKE_STATE_STOPPED
       \<and> state (Brake_UpdatePosition adc b) = BRAKE_STATE_STOPPED
       \<and> state (Brake_EmergencyStop b) = BRAKE_STATE_STOPPED
       \<and> (state (snd (Brake_ClearError adc b)) = BRAKE_STATE_STOPPED
          \<or> state (snd (Brake_ClearError adc b)) = BRAKE_STATE_RELEASED
          \<or> state (snd (Brake_ClearError adc b)) = BRAKE_STATE_PUSHED)"
proof -
  have latched: "Brake_ProcessCommand now cmd b = b"
    if "position_error_count b \<ge> MAX_POSITION_ERRORS"
    using that assms by (simp add: Brake_ProcessCommand_def)
  have upd: "state (Brake_Update now b) = BRAKE_STATE_STOPPED"
    using assms by (simp add: Brake_Update_def)
  have pos: "state (Brake_UpdatePosition adc b) = BRAKE_STATE_STOPPED"
    using assms by (rule UpdatePosition_stopped)
  have emg: "state (Brake_EmergencyStop b) = BRAKE_STATE_STOPPED"
    by (simp add: Brake_EmergencyStop_def)
  have clr: "state (snd (Brake_ClearError adc b)) = BRAKE_STATE_STOPPED
          \<or> state (snd (Brake_ClearError adc b)) = BRAKE_STATE_RELEASED
          \<or> state (snd (Brake_ClearError adc b)) = BRAKE_STATE_PUSHED"
  proof -
    have "state (Brake_UpdatePosition adc (b\<lparr>position_error_count := 0\<rparr>)) = BRAKE_STATE_STOPPED"
      using assms by (simp add: UpdatePosition_stopped)
    then show ?thesis
      using classify_position_state [of "Brake_UpdatePosition adc (b\<lparr>position_error_count := 0\<rparr>)"]
      by (auto simp: Brake_ClearError_def Let_def)
  qed
  from latched upd pos emg clr show ?thesis
    by blast
qed

text \<open>
  The guard of \<^verbatim>\<open>Brake_ProcessCommand\<close> also lets a command through after an
  emergency stop, where the counter is below its threshold.
\<close>

lemma command_accepted_after_emergency_stop:
  "state brake_emergency_stopped = BRAKE_STATE_STOPPED
   \<and> state (Brake_ProcessCommand 10 AUTOMATE_LEFT_BRAKE_CMD_BRAKE_STATE_PUSH_CHOICE
              brake_emergency_stopped) = BRAKE_STATE_PUSHING"
  by code_simp

text \<open>
  C1. The property: from every reachable STOPPED state, also one entered through the
  operation timeout, a PUSH or RELEASE command never changes the actuator state, and
  STOPPED is left only through \<^verbatim>\<open>Brake_ClearError\<close>. The code does not keep it. After a
  PUSH at tick 0 and an update at tick 5001 the operation has timed out and the state
  is STOPPED, with the invalid-sample counter at 0. The guard of
  \<^verbatim>\<open>Brake_ProcessCommand\<close> asks for STOPPED and the counter at its threshold, so the
  next RELEASE command moves the state to RELEASING and the next PUSH command to
  PUSHING, without any recovery call.
\<close>

theorem C1_command_accepted_after_timeout:
  "state brake_timed_out = BRAKE_STATE_STOPPED
   \<and> position_error_count brake_timed_out = 0
   \<and> state (Brake_ProcessCommand 6000 AUTOMATE_LEFT_BRAKE_CMD_BRAKE_STATE_RELEASE_CHOICE
              brake_timed_out) = BRAKE_STATE_RELEASING
   \<and> state (Brake_ProcessCommand 6000 AUTOMATE_LEFT_BRAKE_CMD_BRAKE_STATE_PUSH_CHOICE
              brake_timed_out) = BRAKE_STATE_PUSHING"
  by code_simp

section \<open>Outbound drain\<close>

text \<open>
  C2. The TX queue holds frame 1 (enqueued first) and frame 2. A drain while the
  hardware FIFO is saturated takes frame 1 from the tail and puts it back with
  \<^verbatim>\<open>RingBuffer_Put\<close>, that is at the head, behind frame 2; both frames are still
  queued. The next drain, with room in the hardware, puts frame 2 on the bus before
  frame 1: the failed frame is not retried at its original position and the bus order
  is not the enqueue order.
\<close>

theorem C2_failed_send_requeues_at_back:
  "map can_id (buffer tx_two) ! 0 = 1 \<and> map can_id (buffer tx_two) ! 1 = 2
   \<and> unat (count tx_two) = 2
   \<and> unat (count tx_after_failed_drain) = 2
   \<and> map can_id (bus (snd (CAN_Driver_Transmit HAL_FDCAN_AddMessageToTxFifoQ
                              tx_after_failed_drain \<lparr>tx_fifo_free = 2, bus = []\<rparr>))) = [2, 1]"
  by code_simp

section \<open>Recovery from STOPPED\<close>

text \<open>
  With a valid fresh sample \<^verbatim>\<open>Brake_ClearError\<close> succeeds, clears the counter and
  classifies the sample against 300 and 3700. With an invalid fresh sample its result
  is the validity of the position stored before the call.
\<close>

lemma Brake_ClearError_valid_sample:
  assumes "IsPositionValid (ADC_ReadPosition adc b)"
  shows "fst (Brake_ClearError adc b)
       \<and> position_error_count (snd (Brake_ClearError adc b)) = 0
       \<and> current_position (snd (Brake_ClearError adc b)) = ADC_ReadPosition adc b
       \<and> state (snd (Brake_ClearError adc b)) =
           (if ADC_ReadPosition adc b \<le> 300 then BRAKE_STATE_RELEASED
            else if ADC_ReadPosition adc b \<ge> 3700 then BRAKE_STATE_PUSHED
            else BRAKE_STATE_RELEASED)"
proof -
  have r: "ADC_ReadPosition adc (b\<lparr>position_error_count := 0\<rparr>) = ADC_ReadPosition adc b"
    by (simp add: ADC_ReadPosition_def split: option.split)
  with assms have u: "Brake_UpdatePosition adc (b\<lparr>position_error_count := 0\<rparr>) =
     b\<lparr>position_error_count := 0, current_position := ADC_ReadPosition adc b,
       app_current_position := ADC_ReadPosition adc b, position_error_count := 0\<rparr>"
    by (simp add: Brake_UpdatePosition_def Let_def)
  from assms show ?thesis
    unfolding Brake_ClearError_def Let_def u
    by (simp add: classify_position_def POSITION_RELEASED_def POSITION_TOLERANCE_def
        POSITION_PUSHED_def)
qed

lemma Brake_ClearError_invalid_sample:
  assumes "\<not> IsPositionValid (ADC_ReadPosition adc b)"
  shows "fst (Brake_ClearError adc b) = IsPositionValid (current_position b)"
proof -
  have r: "ADC_ReadPosition adc (b\<lparr>position_error_count := 0\<rparr>) = ADC_ReadPosition adc b"
    by (simp add: ADC_ReadPosition_def split: option.split)
  with assms have "current_position (Brake_UpdatePosition adc (b\<lparr>position_error_count := 0\<rparr>))
      = current_position b"
    by (simp add: Brake_UpdatePosition_def Let_def)
  then show ?thesis
    by (simp add: Brake_ClearError_def Let_def)
qed

text \<open>
  C3. After ten invalid samples the brake is STOPPED with the fault signal asserted,
  and the stored position is still the last valid one (200). \<^verbatim>\<open>Brake_ClearError\<close> with
  a fresh sample that is still invalid (4095) tests the stored position, not the fresh
  sample: it returns true and leaves STOPPED for RELEASED, where the claim has false
  and STOPPED retained.
\<close>

theorem C3_clear_error_stale_position:
  "state brake_sensor_fault = BRAKE_STATE_STOPPED
   \<and> Brake_HasError brake_sensor_fault
   \<and> \<not> IsPositionValid (ADC_ReadPosition (Some 4095) brake_sensor_fault)
   \<and> fst (Brake_ClearError (Some 4095) brake_sensor_fault) = True
   \<and> state (snd (Brake_ClearError (Some 4095) brake_sensor_fault)) = BRAKE_STATE_RELEASED"
  by code_simp

section \<open>Remaining time\<close>

lemma ucast_diff_u16:
  fixes est elapsed :: u32
  assumes "elapsed < est"
  shows "uint (ucast (est - elapsed) :: u16) = (uint est - uint elapsed) mod 65536"
proof -
  from assms have "elapsed \<le> est" by simp
  then have d: "uint (est - elapsed) = uint est - uint elapsed"
    by (simp add: uint_minus_simple_alt)
  have "uint (ucast (est - elapsed) :: u16) = take_bit 16 (uint (est - elapsed))"
    by (simp add: unsigned_ucast_eq)
  with d show ?thesis
    by (simp add: take_bit_eq_mod)
qed

text \<open>
  What \<^verbatim>\<open>Brake_GetTimeToEnd\<close> computes: in PUSHING and RELEASING the low 16 bits of
  \<open>max 0 (estimate - elapsed)\<close>, since the 32-bit difference is cast to \<^verbatim>\<open>uint16_t\<close>
  unchecked; in RELEASED, PUSHED and STOPPED it returns 0.
\<close>

lemma Brake_GetTimeToEnd_low_16_bits:
  "(state b = BRAKE_STATE_PUSHING \<or> state b = BRAKE_STATE_RELEASING \<longrightarrow>
      uint (Brake_GetTimeToEnd now b) =
        max 0 (uint (estimated_operation_time_ms b) - uint (now - operation_start_tick b))
          mod 65536)
   \<and> (state b = BRAKE_STATE_RELEASED \<or> state b = BRAKE_STATE_PUSHED
        \<or> state b = BRAKE_STATE_STOPPED \<longrightarrow> Brake_GetTimeToEnd now b = 0)"
proof -
  let ?est = "estimated_operation_time_ms b"
  let ?el = "now - operation_start_tick b"
  have moving: "uint (Brake_GetTimeToEnd now b) = max 0 (uint ?est - uint ?el) mod 65536"
    if st: "state b = BRAKE_STATE_PUSHING \<or> state b = BRAKE_STATE_RELEASING"
  proof (cases "?el < ?est")
    case True
    then have "uint ?el < uint ?est" by (simp add: word_less_def)
    then have "max 0 (uint ?est - uint ?el) = uint ?est - uint ?el" by simp
    with True st ucast_diff_u16 [OF True] show ?thesis
      by (simp add: Brake_GetTimeToEnd_def Let_def)
  next
    case False
    then have "uint ?est \<le> uint ?el" by (simp add: word_less_def)
    then have "max 0 (uint ?est - uint ?el) = 0" by simp
    with False st show ?thesis
      by (simp add: Brake_GetTimeToEnd_def Let_def)
  qed
  have resting: "Brake_GetTimeToEnd now b = 0"
    if "state b = BRAKE_STATE_RELEASED \<or> state b = BRAKE_STATE_PUSHED
        \<or> state b = BRAKE_STATE_STOPPED"
    using that by (auto simp: Brake_GetTimeToEnd_def)
  from moving resting show ?thesis by blast
qed

text \<open>
  C7. The property: in PUSHING and RELEASING \<^verbatim>\<open>Brake_GetTimeToEnd\<close> returns
  \<open>max 0 (estimate - elapsed)\<close>, and 0 in the other states. The code does not keep it.
  After a PUSH at tick 0, a sample of 201 and an update at tick 100, the state is
  PUSHING, the stored estimate is 359900 and the elapsed time is 100, so
  \<open>max 0 (estimate - elapsed)\<close> is 359800; \<^verbatim>\<open>Brake_GetTimeToEnd\<close> at tick 100 returns
  32120, the wrapped low 16 bits of that difference.
\<close>

theorem C7_time_to_end_wraps:
  "state brake_pushing_201 = BRAKE_STATE_PUSHING
   \<and> uint (estimated_operation_time_ms brake_pushing_201) = 359900
   \<and> uint (100 - operation_start_tick brake_pushing_201) = 100
   \<and> max 0 (uint (estimated_operation_time_ms brake_pushing_201)
             - uint (100 - operation_start_tick brake_pushing_201)) = 359800
   \<and> uint (Brake_GetTimeToEnd 100 brake_pushing_201) = 32120"
  by code_simp

section \<open>Remaining-time estimate\<close>

lemma ucast_u16_u32: "(ucast (p :: u16) :: u32) = word_of_int (uint p)"
  by simp

lemma ucast_sub_u16: "(ucast (t :: u16) :: u32) - ucast (p :: u16) = word_of_int (uint t - uint p)"
  unfolding ucast_u16_u32 by (rule wi_hom_sub)

lemma uint_u16_bound: "uint (p :: u16) < 65536"
  using uint_bounded [of p] by simp

lemma sint_small: "- 200000 \<le> k \<Longrightarrow> k \<le> 200000 \<Longrightarrow> sint (word_of_int k :: u32) = k"
  by (simp add: sint_sbintrunc' signed_take_bit_int_eq_self)

lemma uint_small: "0 \<le> k \<Longrightarrow> k \<le> 200000 \<Longrightarrow> uint (word_of_int k :: u32) = k"
  by (simp add: uint_word_of_int_eq take_bit_int_eq_self)

lemma distance_covered_bounds: "- 200000 \<le> distance_covered b \<and> distance_covered b \<le> 200000"
  using uint_u16_bound [of "current_position b"] uint_ge_0 [of "current_position b"]
  by (simp add: distance_covered_def)


lemma estimate_moving:
  assumes st: "state b = BRAKE_STATE_PUSHING \<or> state b = BRAKE_STATE_RELEASING"
  shows "UpdateOperationEstimate now b =
     (if now - operation_start_tick b = 0 then b
      else if 0 < distance_covered b
      then b\<lparr>estimated_operation_time_ms :=
               (now - operation_start_tick b) div word_of_int (distance_covered b)
                 * word_of_int (distance_remaining b)\<rparr>
      else b\<lparr>estimated_operation_time_ms := 2000\<rparr>)"
proof -
  let ?p = "current_position b"
  let ?tgt = "if state b = BRAKE_STATE_PUSHING then POSITION_PUSHED else POSITION_RELEASED"
  let ?src = "if state b = BRAKE_STATE_PUSHING then POSITION_RELEASED else POSITION_PUSHED"
  have rem: "(ucast ?tgt :: u32) - ucast ?p = word_of_int (distance_remaining b)"
    unfolding ucast_sub_u16
    by (simp add: distance_remaining_def POSITION_PUSHED_def POSITION_RELEASED_def)
  have tot: "(ucast ?tgt :: u32) - ucast ?src
             = word_of_int (if state b = BRAKE_STATE_PUSHING then 3600 else - 3600)"
    by (simp add: POSITION_PUSHED_def POSITION_RELEASED_def)
  have tot_ne: "(word_of_int (if state b = BRAKE_STATE_PUSHING then 3600 else - 3600) :: u32) \<noteq> 0"
    by simp
  have cov: "(word_of_int (if state b = BRAKE_STATE_PUSHING then 3600 else - 3600) :: u32)
               - word_of_int (distance_remaining b) = word_of_int (distance_covered b)"
    unfolding wi_hom_sub
    by (simp add: distance_covered_def distance_remaining_def)
  have sgn: "(0 <s (word_of_int (distance_covered b) :: u32)) = (0 < distance_covered b)"
    using distance_covered_bounds [of b] by (simp add: word_sless_alt sint_small)
  have el: "(0 < now - operation_start_tick b) = (now - operation_start_tick b \<noteq> 0)"
    by (simp add: word_greater_zero_iff)
  have "UpdateOperationEstimate now b =
     (if word_of_int (if state b = BRAKE_STATE_PUSHING then 3600 else - 3600) = (0 :: u32)
      then b\<lparr>estimated_operation_time_ms := 0\<rparr>
      else if 0 < now - operation_start_tick b then
        if 0 <s (word_of_int (distance_covered b) :: u32)
        then b\<lparr>estimated_operation_time_ms :=
               (now - operation_start_tick b) div word_of_int (distance_covered b)
                 * word_of_int (distance_remaining b)\<rparr>
        else b\<lparr>estimated_operation_time_ms := 2000\<rparr>
      else b)"
    unfolding UpdateOperationEstimate_def Let_def rem tot cov
    using st by (auto simp: ESTIMATED_PUSH_TIME_MS_def ESTIMATED_RELEASE_TIME_MS_def)
  then show ?thesis
    unfolding sgn el using tot_ne by simp
qed


lemma uint_estimate_product:
  fixes q :: u32
  assumes "0 < c" and "c \<le> 200000"
  shows "uint (q div word_of_int c * word_of_int r) = (uint q div c) * r mod 2 ^ 32"
proof -
  from assms have c: "uint (word_of_int c :: u32) = c"
    by (simp add: uint_small)
  have "uint (q div word_of_int c * word_of_int r)
        = uint (q div word_of_int c) * uint (word_of_int r :: u32) mod 2 ^ 32"
    by (simp add: uint_word_ariths)
  also have "\<dots> = (uint q div c) * (r mod 2 ^ 32) mod 2 ^ 32"
    unfolding uint_div c by (simp add: uint_word_of_int)
  also have "\<dots> = (uint q div c) * r mod 2 ^ 32"
    by (rule mod_mult_right_eq)
  finally show ?thesis .
qed

text \<open>
  What \<^verbatim>\<open>UpdateOperationEstimate\<close> computes in PUSHING and RELEASING, on its own signed
  distances: with a non-zero elapsed time and a positive \<^verbatim>\<open>distance_traveled\<close> it stores
  \<open>(elapsed div distance_traveled) * distance_remaining\<close> modulo \<open>2 ^ 32\<close>, the
  quotient truncated before the multiplication; with a \<^verbatim>\<open>distance_traveled\<close> that is
  not positive it stores 2000; with an elapsed time of zero it stores nothing.
\<close>

lemma UpdateOperationEstimate_quotient_first:
  assumes "state b = BRAKE_STATE_PUSHING \<or> state b = BRAKE_STATE_RELEASING"
  shows "(now - operation_start_tick b \<noteq> 0 \<and> 0 < distance_covered b \<longrightarrow>
            uint (estimated_operation_time_ms (UpdateOperationEstimate now b)) =
              (uint (now - operation_start_tick b) div distance_covered b)
                * distance_remaining b mod 2 ^ 32)
       \<and> (now - operation_start_tick b \<noteq> 0 \<and> distance_covered b \<le> 0 \<longrightarrow>
            estimated_operation_time_ms (UpdateOperationEstimate now b) = 2000)
       \<and> (now - operation_start_tick b = 0 \<longrightarrow> UpdateOperationEstimate now b = b)"
proof -
  note nf = estimate_moving [OF assms, of now]
  have a: "uint (estimated_operation_time_ms (UpdateOperationEstimate now b)) =
              (uint (now - operation_start_tick b) div distance_covered b)
                * distance_remaining b mod 2 ^ 32"
    if "now - operation_start_tick b \<noteq> 0" and pos: "0 < distance_covered b"
  proof -
    from distance_covered_bounds [of b] have "distance_covered b \<le> 200000" by simp
    from uint_estimate_product [OF pos this] that show ?thesis
      by (simp add: nf)
  qed
  have d: "estimated_operation_time_ms (UpdateOperationEstimate now b) = 2000"
    if "now - operation_start_tick b \<noteq> 0" and "distance_covered b \<le> 0"
    using that by (simp add: nf)
  have z: "UpdateOperationEstimate now b = b" if "now - operation_start_tick b = 0"
    unfolding nf using that by simp
  from a d z show ?thesis by blast
qed

text \<open>
  C8. The property: with elapsed time and distance covered both positive, the
  recomputed estimate is \<open>elapsed * distance_remaining / distance_covered\<close> in exact
  integer arithmetic. The code does not keep it. PUSHING since tick 0 with the
  position at 1200, at tick 100: the elapsed time is 100, the distance covered 1000
  and the distance remaining 2600, so the quotient is 260; the code divides first
  (\<^verbatim>\<open>time_per_unit = elapsed / distance_traveled\<close> is 0) and stores 0. RELEASING since
  tick 0 from 3800 with the position at 2000, at tick 100: 1800 units are covered and
  1800 remain, so the quotient is 100; the code's \<^verbatim>\<open>distance_traveled\<close> is negative
  there and it stores the default 2000.
\<close>

theorem C8_estimate_truncated:
  "state brake_pushing_1200 = BRAKE_STATE_PUSHING
   \<and> uint (100 - operation_start_tick brake_pushing_1200) = 100
   \<and> uint (current_position brake_pushing_1200) - 200 = 1000
   \<and> 3800 - uint (current_position brake_pushing_1200) = 2600
   \<and> uint (100 - operation_start_tick brake_pushing_1200)
        * (3800 - uint (current_position brake_pushing_1200))
        div (uint (current_position brake_pushing_1200) - 200) = 260
   \<and> uint (estimated_operation_time_ms (UpdateOperationEstimate 100 brake_pushing_1200)) = 0
   \<and> state brake_releasing_2000 = BRAKE_STATE_RELEASING
   \<and> uint (100 - operation_start_tick brake_releasing_2000) = 100
   \<and> 3800 - uint (current_position brake_releasing_2000) = 1800
   \<and> uint (current_position brake_releasing_2000) - 200 = 1800
   \<and> uint (100 - operation_start_tick brake_releasing_2000)
        * (uint (current_position brake_releasing_2000) - 200)
        div (3800 - uint (current_position brake_releasing_2000)) = 100
   \<and> uint (estimated_operation_time_ms (UpdateOperationEstimate 100 brake_releasing_2000)) = 2000"
  by code_simp

section \<open>Watchdog and health\<close>

text \<open>
  C5. A PC heartbeat has been seen, health is ON, and the brake reports no fault (a
  fault would force FAILURE, which is C6). With the last heartbeat at tick 0, the
  evaluation at tick 199 and at tick 200 leaves ON and the evaluation at tick 201 gives
  WARNING. For any last-seen tick the result is WARNING exactly when the time since
  the last heartbeat is strictly greater than 200. After the WARNING at tick 201, a PC
  heartbeat recorded at any tick \<open>t\<close> followed by an evaluation at \<open>t + d\<close> with
  \<open>d \<le> 200\<close> returns health to ON.
\<close>

theorem C5_watchdog_strict:
  assumes "pc_heartbeat_received c"
      and "node_health c = AUTOMATE_HEART_BEAT_MSG_HEALTH_ON_CHOICE"
      and "\<not> Brake_HasError br"
  shows "(last_pc_heartbeat_tick c = 0 \<longrightarrow>
            node_health (UpdateSystemHealth 199 br c) = AUTOMATE_HEART_BEAT_MSG_HEALTH_ON_CHOICE
          \<and> node_health (UpdateSystemHealth 200 br c) = AUTOMATE_HEART_BEAT_MSG_HEALTH_ON_CHOICE
          \<and> node_health (UpdateSystemHealth 201 br c) = AUTOMATE_HEART_BEAT_MSG_HEALTH_WARNING_CHOICE)
       \<and> node_health (UpdateSystemHealth now br c) =
           (if now - last_pc_heartbeat_tick c > 200
            then AUTOMATE_HEART_BEAT_MSG_HEALTH_WARNING_CHOICE
            else AUTOMATE_HEART_BEAT_MSG_HEALTH_ON_CHOICE)
       \<and> (last_pc_heartbeat_tick c = 0 \<and> hb_node_id hb = NODE_ID_PC \<and> d \<le> 200 \<longrightarrow>
            node_health (UpdateSystemHealth (t + d) br
              (process_heartbeat t hb (UpdateSystemHealth 201 br c)))
              = AUTOMATE_HEART_BEAT_MSG_HEALTH_ON_CHOICE)"
proof -
  have gen: "node_health (UpdateSystemHealth n br c1) =
           (if n - last_pc_heartbeat_tick c1 > 200
            then AUTOMATE_HEART_BEAT_MSG_HEALTH_WARNING_CHOICE
            else AUTOMATE_HEART_BEAT_MSG_HEALTH_ON_CHOICE)"
    if "pc_heartbeat_received c1" and "node_health c1 = AUTOMATE_HEART_BEAT_MSG_HEALTH_ON_CHOICE"
    for n c1
    using that assms(3)
    by (simp add: UpdateSystemHealth_def Let_def WATCHDOG_TIMEOUT_MS_def
        AUTOMATE_HEART_BEAT_MSG_HEALTH_ON_CHOICE_def
        AUTOMATE_HEART_BEAT_MSG_HEALTH_WARNING_CHOICE_def
        AUTOMATE_HEART_BEAT_MSG_HEALTH_INIT_CHOICE_def)
  have recov: "node_health (UpdateSystemHealth (t + d) br (process_heartbeat t hb c1))
              = AUTOMATE_HEART_BEAT_MSG_HEALTH_ON_CHOICE"
    if "hb_node_id hb = NODE_ID_PC" and "d \<le> 200"
      and "node_health c1 = AUTOMATE_HEART_BEAT_MSG_HEALTH_WARNING_CHOICE" for c1
    using that assms(3)
    by (simp add: UpdateSystemHealth_def Let_def WATCHDOG_TIMEOUT_MS_def process_heartbeat_def
        not_less
        AUTOMATE_HEART_BEAT_MSG_HEALTH_ON_CHOICE_def
        AUTOMATE_HEART_BEAT_MSG_HEALTH_WARNING_CHOICE_def
        AUTOMATE_HEART_BEAT_MSG_HEALTH_INIT_CHOICE_def)
  have w: "node_health (UpdateSystemHealth 201 br c)
            = AUTOMATE_HEART_BEAT_MSG_HEALTH_WARNING_CHOICE"
    if "last_pc_heartbeat_tick c = 0"
    using that gen [OF assms(1,2), of 201] by simp
  from gen [OF assms(1,2)] recov w show ?thesis
    by simp
qed

theorem C5_watchdog_strict_witness:
  "pc_heartbeat_received controller_on_seen
   \<and> node_health controller_on_seen = AUTOMATE_HEART_BEAT_MSG_HEALTH_ON_CHOICE
   \<and> \<not> Brake_HasError brake_at_200
   \<and> last_pc_heartbeat_tick controller_on_seen = 0
   \<and> node_health (UpdateSystemHealth 199 brake_at_200 controller_on_seen)
       = AUTOMATE_HEART_BEAT_MSG_HEALTH_ON_CHOICE
   \<and> node_health (UpdateSystemHealth 200 brake_at_200 controller_on_seen)
       = AUTOMATE_HEART_BEAT_MSG_HEALTH_ON_CHOICE
   \<and> node_health (UpdateSystemHealth 201 brake_at_200 controller_on_seen)
       = AUTOMATE_HEART_BEAT_MSG_HEALTH_WARNING_CHOICE
   \<and> node_health (UpdateSystemHealth 251 brake_at_200
        (process_heartbeat 250 pc_heartbeat (UpdateSystemHealth 201 brake_at_200 controller_on_seen)))
       = AUTOMATE_HEART_BEAT_MSG_HEALTH_ON_CHOICE"
proof -
  have h1: "pc_heartbeat_received controller_on_seen" by code_simp
  have h2: "node_health controller_on_seen = AUTOMATE_HEART_BEAT_MSG_HEALTH_ON_CHOICE"
    by code_simp
  have h3: "\<not> Brake_HasError brake_at_200" by code_simp
  have h4: "last_pc_heartbeat_tick controller_on_seen = 0" by code_simp
  have h5: "hb_node_id pc_heartbeat = NODE_ID_PC" by code_simp
  have h6: "(1 :: u32) \<le> 200" by simp
  have h7: "(250 :: u32) + 1 = 251" by simp
  from C5_watchdog_strict [OF h1 h2 h3, where hb = pc_heartbeat and d = 1 and t = 250]
  show ?thesis
    unfolding h7 using h1 h2 h3 h4 h5 h6 by blast
qed

text \<open>
  C6. For every tick, brake state and controller state: if health is FAILURE before
  \<^verbatim>\<open>UpdateSystemHealth\<close>, it is FAILURE after; and if the brake fault signal
  (\<^verbatim>\<open>Brake_HasError\<close>) is asserted while health is below FAILURE, health is FAILURE
  after the call.
\<close>

theorem C6_failure_sticky:
  "(node_health c = AUTOMATE_HEART_BEAT_MSG_HEALTH_FAILURE_CHOICE \<longrightarrow>
      node_health (UpdateSystemHealth t br c) = AUTOMATE_HEART_BEAT_MSG_HEALTH_FAILURE_CHOICE)
   \<and> (Brake_HasError br \<and> node_health c < AUTOMATE_HEART_BEAT_MSG_HEALTH_FAILURE_CHOICE \<longrightarrow>
      node_health (UpdateSystemHealth t br c) = AUTOMATE_HEART_BEAT_MSG_HEALTH_FAILURE_CHOICE)"
  by (simp add: UpdateSystemHealth_def Let_def
        AUTOMATE_HEART_BEAT_MSG_HEALTH_ON_CHOICE_def
        AUTOMATE_HEART_BEAT_MSG_HEALTH_WARNING_CHOICE_def
        AUTOMATE_HEART_BEAT_MSG_HEALTH_INIT_CHOICE_def
        AUTOMATE_HEART_BEAT_MSG_HEALTH_FAILURE_CHOICE_def)

theorem C6_failure_sticky_witness:
  "node_health (Controller_SetHealth AUTOMATE_HEART_BEAT_MSG_HEALTH_FAILURE_CHOICE controller_on_seen)
     = AUTOMATE_HEART_BEAT_MSG_HEALTH_FAILURE_CHOICE
   \<and> node_health (UpdateSystemHealth 5000 brake_at_200
        (Controller_SetHealth AUTOMATE_HEART_BEAT_MSG_HEALTH_FAILURE_CHOICE controller_on_seen))
       = AUTOMATE_HEART_BEAT_MSG_HEALTH_FAILURE_CHOICE
   \<and> Brake_HasError brake_sensor_fault
   \<and> node_health controller_on_seen < AUTOMATE_HEART_BEAT_MSG_HEALTH_FAILURE_CHOICE
   \<and> node_health (UpdateSystemHealth 100 brake_sensor_fault controller_on_seen)
       = AUTOMATE_HEART_BEAT_MSG_HEALTH_FAILURE_CHOICE"
proof -
  have f: "node_health (Controller_SetHealth AUTOMATE_HEART_BEAT_MSG_HEALTH_FAILURE_CHOICE
             controller_on_seen) = AUTOMATE_HEART_BEAT_MSG_HEALTH_FAILURE_CHOICE"
    by code_simp
  have e: "Brake_HasError brake_sensor_fault" by code_simp
  have l: "node_health controller_on_seen < AUTOMATE_HEART_BEAT_MSG_HEALTH_FAILURE_CHOICE"
    by code_simp
  from C6_failure_sticky
         [where c = "Controller_SetHealth AUTOMATE_HEART_BEAT_MSG_HEALTH_FAILURE_CHOICE
                       controller_on_seen"
            and t = 5000 and br = brake_at_200]
       C6_failure_sticky [where c = controller_on_seen and t = 100 and br = brake_sensor_fault] f e l
  show ?thesis by blast
qed

text \<open>
  C9. \<^verbatim>\<open>Controller_SetHealth\<close> stores the value when it is one of INIT, ON, WARNING,
  FAILURE, and leaves the controller state unchanged for every other value. The range
  check is the modelled \<open>automate_heart_beat_msg_health_is_in_range\<close>.
\<close>

theorem C9_set_health:
  "(health = AUTOMATE_HEART_BEAT_MSG_HEALTH_INIT_CHOICE
      \<or> health = AUTOMATE_HEART_BEAT_MSG_HEALTH_ON_CHOICE
      \<or> health = AUTOMATE_HEART_BEAT_MSG_HEALTH_WARNING_CHOICE
      \<or> health = AUTOMATE_HEART_BEAT_MSG_HEALTH_FAILURE_CHOICE \<longrightarrow>
      Controller_GetHealth (Controller_SetHealth health c) = health)
   \<and> (health \<noteq> AUTOMATE_HEART_BEAT_MSG_HEALTH_INIT_CHOICE
      \<and> health \<noteq> AUTOMATE_HEART_BEAT_MSG_HEALTH_ON_CHOICE
      \<and> health \<noteq> AUTOMATE_HEART_BEAT_MSG_HEALTH_WARNING_CHOICE
      \<and> health \<noteq> AUTOMATE_HEART_BEAT_MSG_HEALTH_FAILURE_CHOICE \<longrightarrow>
      Controller_SetHealth health c = c)"
  by (simp add: Controller_SetHealth_def Controller_GetHealth_def
      automate_heart_beat_msg_health_is_in_range_def)

theorem C9_set_health_witness:
  "Controller_GetHealth (Controller_SetHealth 3 controller_reset) = 3
   \<and> Controller_SetHealth 5 controller_reset = controller_reset
   \<and> Controller_SetHealth 0 controller_reset = controller_reset"
proof -
  have a: "(3 :: u8) = AUTOMATE_HEART_BEAT_MSG_HEALTH_WARNING_CHOICE" by code_simp
  have b: "(5 :: u8) \<noteq> AUTOMATE_HEART_BEAT_MSG_HEALTH_INIT_CHOICE
         \<and> (5 :: u8) \<noteq> AUTOMATE_HEART_BEAT_MSG_HEALTH_ON_CHOICE
         \<and> (5 :: u8) \<noteq> AUTOMATE_HEART_BEAT_MSG_HEALTH_WARNING_CHOICE
         \<and> (5 :: u8) \<noteq> AUTOMATE_HEART_BEAT_MSG_HEALTH_FAILURE_CHOICE" by code_simp
  have c: "(0 :: u8) \<noteq> AUTOMATE_HEART_BEAT_MSG_HEALTH_INIT_CHOICE
         \<and> (0 :: u8) \<noteq> AUTOMATE_HEART_BEAT_MSG_HEALTH_ON_CHOICE
         \<and> (0 :: u8) \<noteq> AUTOMATE_HEART_BEAT_MSG_HEALTH_WARNING_CHOICE
         \<and> (0 :: u8) \<noteq> AUTOMATE_HEART_BEAT_MSG_HEALTH_FAILURE_CHOICE" by code_simp
  from C9_set_health [where health = 3 and c = controller_reset]
       C9_set_health [where health = 5 and c = controller_reset]
       C9_set_health [where health = 0 and c = controller_reset] a b c
  show ?thesis by blast
qed

section \<open>Heartbeat origin\<close>




end
